theory Spec2Isabelle
  imports Complex_Main
begin

section \<open>Data model of the tooltip component\<close>

text \<open>
  The component under verification is the \<^verbatim>\<open>Tooltip\<close> function component. JavaScript
  numbers are modelled as real numbers: the claims only compare, add, subtract and halve
  screen coordinates.
\<close>

type_synonym handle = nat

datatype error = TypeError | NotEnabled

text \<open>A prop typed \<^verbatim>\<open>number | string\<close> (the \<^verbatim>\<open>height\<close> and \<^verbatim>\<open>width\<close> props).\<close>

datatype dimension = Num real | Str string

fun typeof_number :: "dimension \<Rightarrow> bool" where
  "typeof_number (Num r) = True"
| "typeof_number (Str s) = False"

text \<open>The numeric value of a dimension; only read where \<^verbatim>\<open>typeof height === "number"\<close>.\<close>

fun as_number :: "dimension \<Rightarrow> real" where
  "as_number (Num r) = r"

text \<open>
  A style object maps property names to values. A property can be present with the value
  \<^verbatim>\<open>undefined\<close> (as \<^verbatim>\<open>left\<close> is under right-to-left layout); reading a property that is
  absent gives \<^verbatim>\<open>undefined\<close> as well.
\<close>

datatype style_value = Undefined | Number real | String string

type_synonym view_style = "string \<rightharpoonup> style_value"

definition style_get :: "view_style \<Rightarrow> string \<Rightarrow> style_value" where
  "style_get st k = (case st k of None \<Rightarrow> Undefined | Some v \<Rightarrow> v)"

fun of_dimension :: "dimension \<Rightarrow> style_value" where
  "of_dimension (Num r) = Number r"
| "of_dimension (Str s) = String s"

datatype ActionType = press | longPress | none

text \<open>
  The props of the touchable wrapper around the anchor: a map from prop names to values.
  A handler is either the component's own \<^verbatim>\<open>toggleTooltip\<close> or a function of the caller,
  which is opaque and told apart by a number.
\<close>

datatype handler = ToggleTooltip | CallerHandler nat

datatype prop_value = PUndefined | PHandler handler | PBool bool | PNumber real | PString string

type_synonym wrapper_props = "string \<rightharpoonup> prop_value"

text \<open>
  The props the component reads, after destructuring. \<^verbatim>\<open>children\<close> and \<^verbatim>\<open>popover\<close> are
  opaque to the controller; the callbacks \<^verbatim>\<open>onClose\<close> and \<^verbatim>\<open>onOpen\<close> are opaque too and
  every invocation of one is recorded in the trace below.
\<close>

record props =
  withPointer :: bool
  height :: dimension
  width :: dimension
  containerStyle :: view_style
  pointerColor :: "string option"
  pointerStyle :: view_style
  withOverlay :: bool
  overlayColor :: "string option"
  backgroundColor :: string
  highlightColor :: string
  toggleWrapperProps :: wrapper_props
  actionType :: ActionType

text \<open>The defaults of the destructuring in the component's first statement.\<close>

definition defaultProps :: props where
  "defaultProps = \<lparr> withPointer = True, height = Num 40, width = Num 150,
     containerStyle = Map.empty, pointerColor = None, pointerStyle = Map.empty,
     withOverlay = True, overlayColor = None, backgroundColor = ''#617080'',
     highlightColor = ''transparent'', toggleWrapperProps = Map.empty, actionType = press \<rparr>"

text \<open>The state cell \<^verbatim>\<open>renderedElementLayout\<close>, all zero until the first measurement.\<close>

record layout =
  yOffset :: real
  xOffset :: real
  elementWidth :: real
  elementHeight :: real

definition initialLayout :: layout where
  "initialLayout = \<lparr> yOffset = 0, xOffset = 0, elementWidth = 0, elementHeight = 0 \<rparr>"

text \<open>
  What the component imports and does not define: the screen size and the platform flag
  of \<^verbatim>\<open>./helpers\<close>, the layout direction \<^verbatim>\<open>I18nManager.isRTL\<close>, and the placement
  engine \<^verbatim>\<open>getTooltipCoordinate\<close>, which is taken as a parameter: it receives the anchor
  geometry, the screen size, the requested width and the pointer flag, and returns the
  pair \<open>(x, y)\<close>.
\<close>

type_synonym coordinate_fn =
  "real \<Rightarrow> real \<Rightarrow> real \<Rightarrow> real \<Rightarrow> real \<Rightarrow> real \<Rightarrow> dimension \<Rightarrow> bool \<Rightarrow> real \<times> real"

record env =
  ScreenWidth :: real
  ScreenHeight :: real
  isIOS :: bool
  isRTL :: bool
  getTooltipCoordinate :: coordinate_fn

section \<open>Placement: the computed styles\<close>

text \<open>The pair \<open>(x, y)\<close> that \<^verbatim>\<open>getTooltipStyle\<close> obtains from the placement engine.\<close>

definition tooltipCoordinate :: "env \<Rightarrow> props \<Rightarrow> layout \<Rightarrow> real \<times> real" where
  "tooltipCoordinate e p l =
     getTooltipCoordinate e (xOffset l) (yOffset l) (elementWidth l) (elementHeight l)
       (ScreenWidth e) (ScreenHeight e) (width p) (withPointer p)"

text \<open>
  The properties of the object literal of \<^verbatim>\<open>getTooltipStyle\<close> that precede the spread of
  \<^verbatim>\<open>containerStyle\<close>.
\<close>

definition computedStyle :: "env \<Rightarrow> props \<Rightarrow> real \<Rightarrow> view_style" where
  "computedStyle e p x =
     [ ''position'' \<mapsto> String ''absolute'',
       ''left'' \<mapsto> (if isRTL e then Undefined else Number x),
       ''right'' \<mapsto> (if isRTL e then Number x else Undefined),
       ''width'' \<mapsto> of_dimension (width p),
       ''height'' \<mapsto> of_dimension (height p),
       ''backgroundColor'' \<mapsto> String (backgroundColor p),
       ''display'' \<mapsto> String ''flex'',
       ''alignItems'' \<mapsto> String ''center'',
       ''justifyContent'' \<mapsto> String ''center'',
       ''flex'' \<mapsto> Number 1,
       ''borderRadius'' \<mapsto> Number 10,
       ''padding'' \<mapsto> Number 10 ]"

text \<open>
  \<^verbatim>\<open>getTooltipStyle\<close>: the literal with \<^verbatim>\<open>containerStyle\<close> spread over it (the right operand
  of \<open>++\<close> wins), then the assignment of one vertical edge, then the pair
  \<^verbatim>\<open>{ tooltipStyle, pastMiddleLine }\<close>.
\<close>

definition getTooltipStyle :: "env \<Rightarrow> props \<Rightarrow> layout \<Rightarrow> view_style \<times> bool" where
  "getTooltipStyle e p l =
     (let (x, y) = tooltipCoordinate e p l;
          tooltipStyle = computedStyle e p x ++ containerStyle p;
          pastMiddleLine = (yOffset l > y)
      in if \<not> typeof_number (height p) \<and> pastMiddleLine
           then (tooltipStyle(''bottom'' \<mapsto> Number (ScreenHeight e - y)), pastMiddleLine)
         else if typeof_number (height p) \<and> pastMiddleLine
           then (tooltipStyle(''top'' \<mapsto> Number (y - as_number (height p))), pastMiddleLine)
         else (tooltipStyle(''top'' \<mapsto> Number y), pastMiddleLine))"

text \<open>
  \<^verbatim>\<open>renderPointer\<close>: the style of the absolutely positioned wrapper and the props handed
  to \<^verbatim>\<open>Triangle\<close>. \<^verbatim>\<open>pointerColor || backgroundColor\<close> falls back on a missing and on
  an empty colour.
\<close>

record pointer =
  pointerViewStyle :: view_style
  triangleStyle :: view_style
  isDown :: bool

definition renderPointer :: "env \<Rightarrow> props \<Rightarrow> layout \<Rightarrow> bool \<Rightarrow> pointer" where
  "renderPointer e p l pastMiddleLine =
     \<lparr> pointerViewStyle =
         [ ''position'' \<mapsto> String ''absolute'',
           ''top'' \<mapsto> Number (if pastMiddleLine then yOffset l - 13
                                else yOffset l + elementHeight l - 2),
           ''left'' \<mapsto> (if isRTL e then Undefined
                           else Number (xOffset l + elementWidth l / 2 - 7.5)),
           ''right'' \<mapsto> (if isRTL e then Number (xOffset l + elementWidth l / 2 - 7.5)
                            else Undefined) ],
       triangleStyle =
         [ ''borderBottomColor'' \<mapsto>
             String (case pointerColor p of
                       None \<Rightarrow> backgroundColor p
                     | Some c \<Rightarrow> if c = [] then backgroundColor p else c) ]
         ++ pointerStyle p,
       isDown = pastMiddleLine \<rparr>"

text \<open>
  \<^verbatim>\<open>renderContent(true)\<close>: the highlight layer over the anchor, the pointer when
  \<^verbatim>\<open>withPointer\<close> is set, and the popover box.
\<close>

record content =
  highlightStyle :: view_style
  pointerElement :: "pointer option"
  popoverStyle :: view_style

definition renderContent :: "env \<Rightarrow> props \<Rightarrow> layout \<Rightarrow> content" where
  "renderContent e p l =
     (let (tooltipStyle, pastMiddleLine) = getTooltipStyle e p l
      in \<lparr> highlightStyle =
             [ ''position'' \<mapsto> String ''absolute'',
               ''top'' \<mapsto> Number (yOffset l),
               ''left'' \<mapsto> (if isRTL e then Undefined else Number (xOffset l)),
               ''right'' \<mapsto> (if isRTL e then Number (xOffset l) else Undefined),
               ''backgroundColor'' \<mapsto> String (highlightColor p),
               ''overflow'' \<mapsto> String ''visible'',
               ''width'' \<mapsto> Number (elementWidth l),
               ''height'' \<mapsto> Number (elementHeight l) ],
           pointerElement =
             (if withPointer p then Some (renderPointer e p l pastMiddleLine) else None),
           popoverStyle = tooltipStyle \<rparr>)"

section \<open>The overlay controller\<close>

text \<open>
  The state of one component instance: the two \<^verbatim>\<open>useState\<close> cells and the ref of the
  source, followed by what the host keeps for it. \<open>trace\<close> lists, in order, every call
  the component makes to a collaborator, every run of the timer callback and every run of
  a handler that the caller put on the anchor's wrapper;
  \<open>measuring\<close> holds the handles of the \<^verbatim>\<open>measureInWindow\<close> requests that have not
  been answered; \<open>timeout\<close> is the time at which the timer of the mount effect is due,
  while it is scheduled; \<open>clock\<close> counts milliseconds; \<open>presented\<close> tells whether the
  host shows the modal.
\<close>

datatype ref_object = RefObject (current: "handle option")

datatype effect =
    MeasureInWindow handle
  | OnClose
  | OnOpen
  | SetIsVisible bool
  | SetRenderedElementLayout layout
  | SetTimeout nat
  | ClearTimeout
  | TimeoutElapsed
  | WrapperHandler nat

datatype lifecycle = Unmounted | Mounted | Disposed

record tooltip =
  isVisible :: bool
  renderedElementLayout :: layout
  renderedElementRef :: "ref_object option"
  trace :: "effect list"
  measuring :: "handle list"
  timeout :: "nat option"
  clock :: nat
  phase :: lifecycle
  presented :: bool

definition initialState :: tooltip where
  "initialState = \<lparr> isVisible = False, renderedElementLayout = initialLayout,
     renderedElementRef = Some (RefObject None), trace = [], measuring = [],
     timeout = None, clock = 0, phase = Unmounted, presented = False \<rparr>"

subsection \<open>Collaborators\<close>

definition emit :: "effect \<Rightarrow> tooltip \<Rightarrow> tooltip" where
  "emit a s = s\<lparr>trace := trace s @ [a]\<rparr>"

definition onClose :: "tooltip \<Rightarrow> tooltip" where
  "onClose s = emit OnClose s"

definition onOpen :: "tooltip \<Rightarrow> tooltip" where
  "onOpen s = emit OnOpen s"

definition setIsVisible :: "bool \<Rightarrow> tooltip \<Rightarrow> tooltip" where
  "setIsVisible b s = emit (SetIsVisible b) (s\<lparr>isVisible := b\<rparr>)"

definition setRenderedElementLayout :: "layout \<Rightarrow> tooltip \<Rightarrow> tooltip" where
  "setRenderedElementLayout l s =
     emit (SetRenderedElementLayout l) (s\<lparr>renderedElementLayout := l\<rparr>)"

text \<open>
  The method call \<^verbatim>\<open>renderedElementRef.current.measureInWindow(callback)\<close>: on a null
  receiver JavaScript raises a TypeError; on a view it files a request, which the host
  answers later by calling the callback.
\<close>

fun measureInWindow :: "handle option \<Rightarrow> tooltip \<Rightarrow> error + tooltip" where
  "measureInWindow None s = Inl TypeError"
| "measureInWindow (Some h) s =
     Inr (emit (MeasureInWindow h) (s\<lparr>measuring := measuring s @ [h]\<rparr>))"

text \<open>The timer calls; the callback handed to \<^verbatim>\<open>setTimeout\<close> is always \<^verbatim>\<open>getElementPosition\<close>.\<close>

definition setTimeout :: "nat \<Rightarrow> tooltip \<Rightarrow> tooltip" where
  "setTimeout delay s = emit (SetTimeout delay) (s\<lparr>timeout := Some (clock s + delay)\<rparr>)"

definition clearTimeout :: "tooltip \<Rightarrow> tooltip" where
  "clearTimeout s = emit ClearTimeout (s\<lparr>timeout := None\<rparr>)"

subsection \<open>The component's functions\<close>

text \<open>\<^verbatim>\<open>renderedElementRef.current\<close>, read only where \<^verbatim>\<open>renderedElementRef\<close> is truthy.\<close>

fun ref_current :: "ref_object option \<Rightarrow> handle option" where
  "ref_current None = None"
| "ref_current (Some r) = current r"

definition getElementPosition :: "tooltip \<Rightarrow> error + tooltip" where
  "getElementPosition s =
     (if renderedElementRef s = None \<or> ref_current (renderedElementRef s) = None
      then Inr s
      else measureInWindow (ref_current (renderedElementRef s)) s)"

text \<open>The callback handed to \<^verbatim>\<open>measureInWindow\<close>.\<close>

definition measureCallback :: "real \<Rightarrow> real \<Rightarrow> real \<Rightarrow> real \<Rightarrow> tooltip \<Rightarrow> tooltip" where
  "measureCallback pageOffsetX pageOffsetY w h s =
     setRenderedElementLayout
       \<lparr> yOffset = pageOffsetY, xOffset = pageOffsetX, elementWidth = w, elementHeight = h \<rparr> s"

text \<open>The effect with the empty dependency list, and the cleanup it returns.\<close>

definition useEffect :: "tooltip \<Rightarrow> tooltip" where
  "useEffect s = setTimeout 500 s"

definition useEffect_cleanup :: "tooltip \<Rightarrow> tooltip" where
  "useEffect_cleanup s = clearTimeout s"

text \<open>
  \<^verbatim>\<open>toggleTooltip\<close> reads \<^verbatim>\<open>isVisible\<close> from the render it was created in, which is the
  state \<open>s\<close> it is applied to.
\<close>

definition toggleTooltip :: "env \<Rightarrow> tooltip \<Rightarrow> error + tooltip" where
  "toggleTooltip e s =
     (case getElementPosition s of
        Inl err \<Rightarrow> Inl err
      | Inr s1 \<Rightarrow>
          Inr (setIsVisible (\<not> isVisible s)
                 (if isVisible s \<and> \<not> isIOS e then onClose s1 else s1)))"

text \<open>
  \<^verbatim>\<open>wrapWithAction\<close>: the props of the \<^verbatim>\<open>TouchableOpacity\<close> that wraps the anchor, or
  nothing when the anchor is returned unwrapped. \<^verbatim>\<open>toggleWrapperProps\<close> is spread last,
  so it replaces any prop of the same name, the handler included.
\<close>

fun wrapWithAction :: "ActionType \<Rightarrow> wrapper_props \<Rightarrow> wrapper_props option" where
  "wrapWithAction press twp =
     Some ([ ''onPress'' \<mapsto> PHandler ToggleTooltip, ''activeOpacity'' \<mapsto> PNumber 1 ] ++ twp)"
| "wrapWithAction longPress twp =
     Some ([ ''onLongPress'' \<mapsto> PHandler ToggleTooltip, ''activeOpacity'' \<mapsto> PNumber 1 ] ++ twp)"
| "wrapWithAction none twp = None"

text \<open>The handlers the component gives to \<^verbatim>\<open>Modal\<close>.\<close>

definition onDismiss :: "tooltip \<Rightarrow> tooltip" where
  "onDismiss s = onClose s"

definition onShow :: "tooltip \<Rightarrow> tooltip" where
  "onShow s = onOpen s"

definition onRequestClose :: "tooltip \<Rightarrow> tooltip" where
  "onRequestClose s = onClose s"

subsection \<open>The host\<close>

text \<open>
  The events the host delivers to a component instance, and when it can deliver them.
  The host mounts an instance once, attaching the ref, and unmounts it once, detaching
  the ref and running the effect's cleanup. Time passes in steps; a scheduled timer whose
  time has come runs its callback. A gesture on the anchor is possible while the modal
  is not shown, a press on the overlay while it is. A gesture is named after the prop of
  the wrapper whose handler the host calls for it (\<^verbatim>\<open>onPress\<close> for \<open>Tap\<close>,
  \<^verbatim>\<open>onLongPress\<close> for \<open>LongTap\<close>); the host calls no handler of a wrapper that is
  disabled, absent, or has no function under that prop, and a caller's handler is opaque:
  only its run is recorded. The modal follows \<^verbatim>\<open>visible\<close>: once
  \<^verbatim>\<open>isVisible\<close> is set and the modal is not yet shown the host shows it and calls
  \<^verbatim>\<open>onShow\<close>; once \<^verbatim>\<open>isVisible\<close> is cleared and the modal is still shown the host
  removes it, and calls \<^verbatim>\<open>onDismiss\<close> on iOS only. A request to close (the hardware back
  button) calls \<^verbatim>\<open>onRequestClose\<close> while the modal is shown. An event that the host cannot
  deliver in a state gives \<open>NotEnabled\<close>.
\<close>

datatype gesture = Tap | LongTap

fun handlerProp :: "gesture \<Rightarrow> string" where
  "handlerProp Tap = ''onPress''"
| "handlerProp LongTap = ''onLongPress''"

definition anchorHandler :: "props \<Rightarrow> gesture \<Rightarrow> handler option" where
  "anchorHandler p g =
     (case wrapWithAction (actionType p) (toggleWrapperProps p) of
        None \<Rightarrow> None
      | Some w \<Rightarrow>
          if w ''disabled'' = Some (PBool True) then None
          else (case w (handlerProp g) of Some (PHandler f) \<Rightarrow> Some f | _ \<Rightarrow> None))"

datatype event =
    Mount handle
  | Unmount
  | Advance nat
  | AnchorGesture gesture
  | OverlayPress
  | Measured real real real real
  | ModalShow
  | ModalDismiss
  | ModalRequestClose

fun step :: "env \<Rightarrow> props \<Rightarrow> event \<Rightarrow> tooltip \<Rightarrow> error + tooltip" where
  "step e p (Mount h) s =
     (if phase s = Unmounted
      then Inr (useEffect (s\<lparr>phase := Mounted, renderedElementRef := Some (RefObject (Some h))\<rparr>))
      else Inl NotEnabled)"
| "step e p Unmount s =
     (if phase s = Mounted
      then Inr (useEffect_cleanup
                  (s\<lparr>phase := Disposed, renderedElementRef := Some (RefObject None)\<rparr>))
      else Inl NotEnabled)"
| "step e p (Advance d) s =
     (case timeout s of
        None \<Rightarrow> Inr (s\<lparr>clock := clock s + d\<rparr>)
      | Some due \<Rightarrow>
          if due \<le> clock s + d
          then getElementPosition (emit TimeoutElapsed (s\<lparr>clock := clock s + d, timeout := None\<rparr>))
          else Inr (s\<lparr>clock := clock s + d\<rparr>))"
| "step e p (AnchorGesture g) s =
     (if phase s = Mounted \<and> \<not> presented s
      then (case anchorHandler p g of
              None \<Rightarrow> Inr s
            | Some ToggleTooltip \<Rightarrow> toggleTooltip e s
            | Some (CallerHandler n) \<Rightarrow> Inr (emit (WrapperHandler n) s))
      else Inl NotEnabled)"
| "step e p OverlayPress s =
     (if phase s = Mounted \<and> presented s then toggleTooltip e s else Inl NotEnabled)"
| "step e p (Measured pageOffsetX pageOffsetY w h) s =
     (case measuring s of
        [] \<Rightarrow> Inl NotEnabled
      | r # rs \<Rightarrow> Inr (measureCallback pageOffsetX pageOffsetY w h (s\<lparr>measuring := rs\<rparr>)))"
| "step e p ModalShow s =
     (if phase s = Mounted \<and> isVisible s \<and> \<not> presented s
      then Inr (onShow (s\<lparr>presented := True\<rparr>))
      else Inl NotEnabled)"
| "step e p ModalDismiss s =
     (if phase s = Mounted \<and> \<not> isVisible s \<and> presented s
      then Inr (if isIOS e then onDismiss (s\<lparr>presented := False\<rparr>) else s\<lparr>presented := False\<rparr>)
      else Inl NotEnabled)"
| "step e p ModalRequestClose s =
     (if phase s = Mounted \<and> presented s then Inr (onRequestClose s) else Inl NotEnabled)"

fun run :: "env \<Rightarrow> props \<Rightarrow> event list \<Rightarrow> tooltip \<Rightarrow> error + tooltip" where
  "run e p [] s = Inr s"
| "run e p (ev # evs) s =
     (case step e p ev s of Inl err \<Rightarrow> Inl err | Inr s' \<Rightarrow> run e p evs s')"

text \<open>The invocations of the two lifecycle callbacks in a trace, in order.\<close>

definition callbacks :: "effect list \<Rightarrow> effect list" where
  "callbacks tr = filter (\<lambda>a. a = OnOpen \<or> a = OnClose) tr"

text \<open>The time that passes in a list of events.\<close>

fun elapsed :: "event list \<Rightarrow> nat" where
  "elapsed [] = 0"
| "elapsed (Advance d # evs) = d + elapsed evs"
| "elapsed (ev # evs) = elapsed evs"

text \<open>Events that leave the visibility alone: time passing and answers to measurements.\<close>

fun neutral :: "event \<Rightarrow> bool" where
  "neutral (Advance d) = True"
| "neutral (Measured pageOffsetX pageOffsetY w h) = True"
| "neutral ev = False"

section \<open>Sample inputs\<close>

text \<open>
  A placement engine and an environment used only to evaluate the definitions on concrete
  inputs: the engine puts the popover ten units above an anchor that starts in the lower
  half of the screen and directly below any other anchor.
\<close>

definition sampleCoordinate :: coordinate_fn where
  "sampleCoordinate x y w h sw sh tw wp = (10, if sh < 2 * y then y - 10 else y + h)"

definition sampleEnv :: "bool \<Rightarrow> bool \<Rightarrow> env" where
  "sampleEnv ios rtl = \<lparr> ScreenWidth = 400, ScreenHeight = 800, isIOS = ios, isRTL = rtl,
     getTooltipCoordinate = sampleCoordinate \<rparr>"

definition lowAnchor :: layout where
  "lowAnchor = \<lparr> yOffset = 700, xOffset = 20, elementWidth = 100, elementHeight = 40 \<rparr>"

definition highAnchor :: layout where
  "highAnchor = \<lparr> yOffset = 100, xOffset = 20, elementWidth = 100, elementHeight = 40 \<rparr>"

text \<open>The state of an instance right after the host has mounted it on the view 7.\<close>

definition mountedState :: tooltip where
  "mountedState = initialState\<lparr> phase := Mounted,
     renderedElementRef := Some (RefObject (Some 7)), timeout := Some 500,
     trace := [SetTimeout 500] \<rparr>"

definition horizontalProps :: props where
  "horizontalProps =
     defaultProps\<lparr>containerStyle := [''left'' \<mapsto> Number 50, ''right'' \<mapsto> Number 99]\<rparr>"

definition overrideProps :: props where
  "overrideProps =
     defaultProps\<lparr>containerStyle := [''left'' \<mapsto> Number 50, ''top'' \<mapsto> Number 5]\<rparr>"

section \<open>Properties of the placement\<close>

lemmas sample_defs = tooltipCoordinate_def sampleEnv_def sampleCoordinate_def
  defaultProps_def lowAnchor_def highAnchor_def

text \<open>The three branches of \<^verbatim>\<open>getTooltipStyle\<close>, by the type of \<^verbatim>\<open>height\<close>.\<close>

lemma getTooltipStyle_cases:
  "getTooltipStyle e p l =
     (let x = fst (tooltipCoordinate e p l); y = snd (tooltipCoordinate e p l);
          st = computedStyle e p x ++ containerStyle p
      in if y < yOffset l
         then (case height p of
                 Num h \<Rightarrow> (st(''top'' \<mapsto> Number (y - h)), True)
               | Str s \<Rightarrow> (st(''bottom'' \<mapsto> Number (ScreenHeight e - y)), True))
         else (st(''top'' \<mapsto> Number y), False))"
  by (cases "height p") (simp_all add: getTooltipStyle_def Let_def split: prod.splits)

lemma popoverStyle_renderContent:
  "popoverStyle (renderContent e p l) = fst (getTooltipStyle e p l)"
  by (simp add: renderContent_def split: prod.splits)

lemma getTooltipStyle_horizontal:
  "k = ''left'' \<or> k = ''right'' \<Longrightarrow>
     fst (getTooltipStyle e p l) k
       = (computedStyle e p (fst (tooltipCoordinate e p l)) ++ containerStyle p) k"
  by (cases "height p") (auto simp add: getTooltipStyle_cases Let_def)

text \<open>
  Claim C3. For every anchor geometry and every \<open>y\<close> that the placement engine returns,
  the flag \<^verbatim>\<open>pastMiddleLine\<close> that \<^verbatim>\<open>getTooltipStyle\<close> returns is true exactly when the
  anchor's \<^verbatim>\<open>yOffset\<close> is strictly greater than that \<open>y\<close>.
\<close>

theorem pastMiddleLine_iff:
  "snd (getTooltipStyle e p l) = (yOffset l > snd (tooltipCoordinate e p l))"
  by (simp add: getTooltipStyle_def Let_def split: prod.splits)

theorem pastMiddleLine_iff_witness:
  "snd (getTooltipStyle (sampleEnv False False) defaultProps lowAnchor) \<and>
   \<not> snd (getTooltipStyle (sampleEnv False False) defaultProps highAnchor)"
  using pastMiddleLine_iff [of "sampleEnv False False" defaultProps lowAnchor]
    pastMiddleLine_iff [of "sampleEnv False False" defaultProps highAnchor]
  by (simp add: sample_defs)

text \<open>
  Claim C4, as the code has it. When \<^verbatim>\<open>pastMiddleLine\<close> is true and \<^verbatim>\<open>height\<close> is a
  number, the style's \<^verbatim>\<open>top\<close> is \<open>y - height\<close>; when \<^verbatim>\<open>pastMiddleLine\<close> is true and
  \<^verbatim>\<open>height\<close> is not a number, the style's \<^verbatim>\<open>bottom\<close> is \<open>ScreenHeight - y\<close>; when
  \<^verbatim>\<open>pastMiddleLine\<close> is false, the style's \<^verbatim>\<open>top\<close> is \<open>y\<close>. In all three \<open>y\<close> is the value
  that the placement engine returned, not the anchor's \<^verbatim>\<open>yOffset\<close>.
\<close>

theorem vertical_edge:
  "(snd (getTooltipStyle e p l) \<and> height p = Num h \<longrightarrow>
      style_get (fst (getTooltipStyle e p l)) ''top''
        = Number (snd (tooltipCoordinate e p l) - h)) \<and>
   (snd (getTooltipStyle e p l) \<and> height p = Str s \<longrightarrow>
      style_get (fst (getTooltipStyle e p l)) ''bottom''
        = Number (ScreenHeight e - snd (tooltipCoordinate e p l))) \<and>
   (\<not> snd (getTooltipStyle e p l) \<longrightarrow>
      style_get (fst (getTooltipStyle e p l)) ''top''
        = Number (snd (tooltipCoordinate e p l)))"
  by (auto simp add: getTooltipStyle_cases Let_def style_get_def split: dimension.splits)

theorem vertical_edge_witness:
  "snd (getTooltipStyle (sampleEnv False False) defaultProps lowAnchor) \<and>
   height defaultProps = Num 40 \<and>
   style_get (fst (getTooltipStyle (sampleEnv False False) defaultProps lowAnchor)) ''top''
     = Number 650 \<and>
   snd (getTooltipStyle (sampleEnv False False)
      (defaultProps\<lparr>height := Str ''50%''\<rparr>) lowAnchor) \<and>
   style_get (fst (getTooltipStyle (sampleEnv False False)
      (defaultProps\<lparr>height := Str ''50%''\<rparr>) lowAnchor)) ''bottom'' = Number 110 \<and>
   \<not> snd (getTooltipStyle (sampleEnv False False) defaultProps highAnchor) \<and>
   style_get (fst (getTooltipStyle (sampleEnv False False) defaultProps highAnchor)) ''top''
     = Number 140"
proof -
  let ?e = "sampleEnv False False" and ?q = "defaultProps\<lparr>height := Str ''50%''\<rparr>"
  have a: "snd (getTooltipStyle ?e defaultProps lowAnchor)"
    by (simp add: getTooltipStyle_cases Let_def sample_defs)
  have b: "snd (getTooltipStyle ?e ?q lowAnchor)"
    by (simp add: getTooltipStyle_cases Let_def sample_defs)
  have c: "\<not> snd (getTooltipStyle ?e defaultProps highAnchor)"
    by (simp add: getTooltipStyle_cases Let_def sample_defs)
  have h: "height defaultProps = Num 40"
    by (simp add: defaultProps_def)
  have ya: "snd (tooltipCoordinate ?e defaultProps lowAnchor) = 690"
    by (simp add: sample_defs)
  have yb: "snd (tooltipCoordinate ?e ?q lowAnchor) = 690"
    by (simp add: sample_defs)
  have yc: "snd (tooltipCoordinate ?e defaultProps highAnchor) = 140"
    by (simp add: sample_defs)
  have sh: "ScreenHeight ?e = 800"
    by (simp add: sampleEnv_def)
  from a h vertical_edge [of ?e defaultProps lowAnchor 40 "''x''"]
  have 1: "style_get (fst (getTooltipStyle ?e defaultProps lowAnchor)) ''top'' = Number 650"
    by (simp add: ya)
  from b vertical_edge [of ?e ?q lowAnchor 0 "''50%''"]
  have 2: "style_get (fst (getTooltipStyle ?e ?q lowAnchor)) ''bottom'' = Number 110"
    by (simp add: yb sh)
  from c vertical_edge [of ?e defaultProps highAnchor 0 "''x''"]
  have 3: "style_get (fst (getTooltipStyle ?e defaultProps highAnchor)) ''top'' = Number 140"
    by (simp add: yc)
  from a b c h 1 2 3 show ?thesis by blast
qed

text \<open>
  The claim as the specification words it puts the flipped popover's top edge at
  \<open>anchor.yOffset - popoverHeight\<close> and its bottom edge at \<open>viewport.height - anchor.yOffset\<close>.
  Since \<^verbatim>\<open>pastMiddleLine\<close> means \<open>y < yOffset\<close>, the code's edges never have these values,
  whatever the placement engine; the anchor of the specification's own example shows it
  (top edge 650, not 700 - 40; bottom edge 110, not 800 - 700).
\<close>

lemma flipped_edge_differs_from_anchor:
  "snd (getTooltipStyle e p l) \<Longrightarrow>
     (height p = Num h \<longrightarrow>
        style_get (fst (getTooltipStyle e p l)) ''top'' \<noteq> Number (yOffset l - h)) \<and>
     (height p = Str s \<longrightarrow>
        style_get (fst (getTooltipStyle e p l)) ''bottom''
          \<noteq> Number (ScreenHeight e - yOffset l))"
  by (auto simp add: getTooltipStyle_cases Let_def style_get_def split: if_splits)

theorem flipped_top_counterexample:
  "snd (getTooltipStyle (sampleEnv False False) defaultProps lowAnchor) \<and>
   height defaultProps = Num 40 \<and>
   style_get (fst (getTooltipStyle (sampleEnv False False) defaultProps lowAnchor)) ''top''
     = Number 650 \<and>
   Number 650 \<noteq> Number (yOffset lowAnchor - 40) \<and>
   snd (getTooltipStyle (sampleEnv False False)
      (defaultProps\<lparr>height := Str ''50%''\<rparr>) lowAnchor) \<and>
   style_get (fst (getTooltipStyle (sampleEnv False False)
      (defaultProps\<lparr>height := Str ''50%''\<rparr>) lowAnchor)) ''bottom'' = Number 110 \<and>
   Number 110 \<noteq> Number (ScreenHeight (sampleEnv False False) - yOffset lowAnchor)"
  by (simp add: getTooltipStyle_cases Let_def style_get_def sample_defs)

text \<open>
  Claim C5, as the code has it. The computed horizontal coordinate goes to \<^verbatim>\<open>right\<close>
  under right-to-left direction, with \<^verbatim>\<open>left\<close> undefined, and to \<^verbatim>\<open>left\<close> under
  left-to-right direction, with \<^verbatim>\<open>right\<close> undefined. For the pointer and for the
  highlight layer these are the rendered values. For the tooltip box \<^verbatim>\<open>containerStyle\<close>
  is spread afterwards: each of \<^verbatim>\<open>left\<close> and \<^verbatim>\<open>right\<close> that the caller sets has the
  caller's value, and each that the caller does not set has the computed one.
\<close>

theorem direction_mirroring:
  "style_get (popoverStyle (renderContent e p l)) ''left''
     = (case containerStyle p ''left'' of
          Some v \<Rightarrow> v
        | None \<Rightarrow> if isRTL e then Undefined else Number (fst (tooltipCoordinate e p l))) \<and>
   style_get (popoverStyle (renderContent e p l)) ''right''
     = (case containerStyle p ''right'' of
          Some v \<Rightarrow> v
        | None \<Rightarrow> if isRTL e then Number (fst (tooltipCoordinate e p l)) else Undefined) \<and>
   style_get (pointerViewStyle (renderPointer e p l pml)) ''left''
     = (if isRTL e then Undefined else Number (xOffset l + elementWidth l / 2 - 7.5)) \<and>
   style_get (pointerViewStyle (renderPointer e p l pml)) ''right''
     = (if isRTL e then Number (xOffset l + elementWidth l / 2 - 7.5) else Undefined) \<and>
   style_get (highlightStyle (renderContent e p l)) ''left''
     = (if isRTL e then Undefined else Number (xOffset l)) \<and>
   style_get (highlightStyle (renderContent e p l)) ''right''
     = (if isRTL e then Number (xOffset l) else Undefined)"
proof -
  have hl: "style_get (highlightStyle (renderContent e p l)) ''left''
       = (if isRTL e then Undefined else Number (xOffset l))"
    "style_get (highlightStyle (renderContent e p l)) ''right''
       = (if isRTL e then Number (xOffset l) else Undefined)"
    by (simp_all add: renderContent_def style_get_def split: prod.splits)
  have pt: "style_get (pointerViewStyle (renderPointer e p l pml)) ''left''
       = (if isRTL e then Undefined else Number (xOffset l + elementWidth l / 2 - 7.5))"
    "style_get (pointerViewStyle (renderPointer e p l pml)) ''right''
       = (if isRTL e then Number (xOffset l + elementWidth l / 2 - 7.5) else Undefined)"
    by (simp_all add: renderPointer_def style_get_def)
  have bx: "style_get (popoverStyle (renderContent e p l)) ''left''
       = (case containerStyle p ''left'' of
            Some v \<Rightarrow> v
          | None \<Rightarrow> if isRTL e then Undefined else Number (fst (tooltipCoordinate e p l)))"
    "style_get (popoverStyle (renderContent e p l)) ''right''
       = (case containerStyle p ''right'' of
            Some v \<Rightarrow> v
          | None \<Rightarrow> if isRTL e then Number (fst (tooltipCoordinate e p l)) else Undefined)"
    by (simp_all add: popoverStyle_renderContent style_get_def getTooltipStyle_horizontal
        computedStyle_def map_add_def split: option.splits)
  from hl pt bx show ?thesis by blast
qed

theorem direction_mirroring_witness:
  "isRTL (sampleEnv False True) \<and>
   style_get (popoverStyle (renderContent (sampleEnv False True) defaultProps lowAnchor)) ''left''
     = Undefined \<and>
   style_get (popoverStyle (renderContent (sampleEnv False True) defaultProps lowAnchor)) ''right''
     = Number 10 \<and>
   style_get (popoverStyle (renderContent (sampleEnv False True) overrideProps lowAnchor)) ''left''
     = Number 50 \<and>
   style_get (popoverStyle (renderContent (sampleEnv False True) overrideProps lowAnchor)) ''right''
     = Number 10 \<and>
   style_get (pointerViewStyle (renderPointer (sampleEnv False True) defaultProps lowAnchor True))
     ''right'' = Number 62.5 \<and>
   style_get (highlightStyle (renderContent (sampleEnv False True) defaultProps lowAnchor)) ''right''
     = Number 20 \<and>
   \<not> isRTL (sampleEnv False False) \<and>
   style_get (popoverStyle (renderContent (sampleEnv False False) defaultProps lowAnchor)) ''left''
     = Number 10 \<and>
   style_get (popoverStyle (renderContent (sampleEnv False False) defaultProps lowAnchor)) ''right''
     = Undefined"
  using direction_mirroring [of "sampleEnv False True" defaultProps lowAnchor True]
    direction_mirroring [of "sampleEnv False True" overrideProps lowAnchor True]
    direction_mirroring [of "sampleEnv False False" defaultProps lowAnchor True]
  by (simp add: sample_defs overrideProps_def)

text \<open>
  The claim as the specification words it leaves \<^verbatim>\<open>left\<close> unset and puts the computed
  coordinate on \<^verbatim>\<open>right\<close> for every tooltip box under right-to-left direction. With a
  caller's \<^verbatim>\<open>left\<close> of 50 and \<^verbatim>\<open>right\<close> of 99 the box has these two values, and the
  computed 10 is on neither.
\<close>

theorem mirroring_override_counterexample:
  "isRTL (sampleEnv False True) \<and>
   fst (tooltipCoordinate (sampleEnv False True) horizontalProps lowAnchor) = 10 \<and>
   style_get (popoverStyle (renderContent (sampleEnv False True) horizontalProps lowAnchor))
     ''left'' = Number 50 \<and>
   style_get (popoverStyle (renderContent (sampleEnv False True) horizontalProps lowAnchor))
     ''right'' = Number 99"
  by (simp add: popoverStyle_renderContent getTooltipStyle_cases Let_def style_get_def
      sample_defs horizontalProps_def)

text \<open>
  Claim C9, as the code has it. \<^verbatim>\<open>containerStyle\<close> is spread over the computed properties
  and wins for every property it sets other than \<^verbatim>\<open>top\<close> and \<^verbatim>\<open>bottom\<close>. One vertical
  edge is assigned after the spread (\<^verbatim>\<open>bottom\<close> when \<^verbatim>\<open>pastMiddleLine\<close> is true and
  \<^verbatim>\<open>height\<close> is not a number, \<^verbatim>\<open>top\<close> otherwise): there the computed value wins over
  the caller's, and the caller's value stays on the other vertical edge.
\<close>

theorem override_merge:
  "containerStyle p k = Some v \<Longrightarrow>
     (k \<noteq> ''top'' \<and> k \<noteq> ''bottom'' \<longrightarrow> fst (getTooltipStyle e p l) k = Some v) \<and>
     (k = ''top'' \<and> snd (getTooltipStyle e p l) \<and> \<not> typeof_number (height p) \<longrightarrow>
        fst (getTooltipStyle e p l) k = Some v) \<and>
     (k = ''bottom'' \<and> \<not> (snd (getTooltipStyle e p l) \<and> \<not> typeof_number (height p)) \<longrightarrow>
        fst (getTooltipStyle e p l) k = Some v) \<and>
     (snd (getTooltipStyle e p l) \<and> \<not> typeof_number (height p) \<longrightarrow>
        fst (getTooltipStyle e p l) ''bottom''
          = Some (Number (ScreenHeight e - snd (tooltipCoordinate e p l)))) \<and>
     (snd (getTooltipStyle e p l) \<and> typeof_number (height p) \<longrightarrow>
        fst (getTooltipStyle e p l) ''top''
          = Some (Number (snd (tooltipCoordinate e p l) - as_number (height p)))) \<and>
     (\<not> snd (getTooltipStyle e p l) \<longrightarrow>
        fst (getTooltipStyle e p l) ''top'' = Some (Number (snd (tooltipCoordinate e p l))))"
  by (cases "height p") (auto simp add: getTooltipStyle_cases Let_def map_add_def)

theorem override_merge_witness:
  "containerStyle overrideProps ''left'' = Some (Number 50) \<and>
   fst (getTooltipStyle (sampleEnv False False) overrideProps highAnchor) ''left''
     = Some (Number 50) \<and>
   \<not> snd (getTooltipStyle (sampleEnv False False) overrideProps highAnchor) \<and>
   fst (getTooltipStyle (sampleEnv False False) overrideProps highAnchor) ''top''
     = Some (Number 140)"
proof -
  let ?e = "sampleEnv False False"
  have k: "containerStyle overrideProps ''left'' = Some (Number 50)"
    by (simp add: overrideProps_def)
  have c: "\<not> snd (getTooltipStyle ?e overrideProps highAnchor)"
    by (simp add: getTooltipStyle_cases Let_def sample_defs overrideProps_def)
  have y: "snd (tooltipCoordinate ?e overrideProps highAnchor) = 140"
    by (simp add: sample_defs overrideProps_def)
  from override_merge [OF k, of ?e highAnchor] c y k show ?thesis
    by simp
qed

text \<open>
  The claim as the specification words it lets the caller's value win on \<^verbatim>\<open>top\<close> and
  \<^verbatim>\<open>bottom\<close> too. A caller's \<^verbatim>\<open>top\<close> of 5 is replaced by the computed 140.
\<close>

theorem override_top_counterexample:
  "containerStyle overrideProps ''top'' = Some (Number 5) \<and>
   fst (getTooltipStyle (sampleEnv False False) overrideProps highAnchor) ''top''
     = Some (Number 140)"
  by (simp add: getTooltipStyle_cases Let_def sample_defs overrideProps_def)

section \<open>Properties of the controller\<close>

subsection \<open>Measurement and toggle\<close>

lemma getElementPosition_cases:
  "getElementPosition s =
     (case ref_current (renderedElementRef s) of
        None \<Rightarrow> Inr s
      | Some h \<Rightarrow> Inr (emit (MeasureInWindow h) (s\<lparr>measuring := measuring s @ [h]\<rparr>)))"
  by (cases "renderedElementRef s") (auto simp add: getElementPosition_def split: option.splits)

text \<open>The guard of \<^verbatim>\<open>getElementPosition\<close> keeps the method call from raising.\<close>

lemma getElementPosition_total: "\<exists>s'. getElementPosition s = Inr s'"
  by (simp add: getElementPosition_cases split: option.splits)

lemma toggleTooltip_eq:
  "toggleTooltip e s =
     Inr (s\<lparr>measuring := measuring s
                @ (case ref_current (renderedElementRef s) of None \<Rightarrow> [] | Some h \<Rightarrow> [h]),
             isVisible := \<not> isVisible s,
             trace := trace s
                @ (case ref_current (renderedElementRef s) of
                     None \<Rightarrow> [] | Some h \<Rightarrow> [MeasureInWindow h])
                @ (if isVisible s \<and> \<not> isIOS e then [OnClose] else [])
                @ [SetIsVisible (\<not> isVisible s)]\<rparr>)"
  by (simp add: toggleTooltip_def getElementPosition_cases setIsVisible_def onClose_def
      emit_def split: option.splits)

lemmas controller_defs = toggleTooltip_eq getElementPosition_cases emit_def onClose_def
  onOpen_def onShow_def onDismiss_def onRequestClose_def setRenderedElementLayout_def
  measureCallback_def setTimeout_def clearTimeout_def useEffect_def useEffect_cleanup_def

lemmas fixture_defs = initialState_def mountedState_def sampleEnv_def defaultProps_def

lemma mount_initialState:
  "step e p (Mount 7) initialState = Inr mountedState"
  by (simp add: controller_defs fixture_defs)

text \<open>
  Claim C6. When \<^verbatim>\<open>getElementPosition\<close> runs while the ref is missing or its
  \<^verbatim>\<open>current\<close> is null, it returns normally and changes nothing: the stored layout, the
  trace and the outstanding requests are those of before.
\<close>

theorem unavailable_handle_noop:
  "renderedElementRef s = None \<or> ref_current (renderedElementRef s) = None \<Longrightarrow>
     getElementPosition s = Inr s"
  by (auto simp add: getElementPosition_def)

theorem unavailable_handle_noop_witness:
  "ref_current (renderedElementRef initialState) = None \<and>
   getElementPosition initialState = Inr initialState \<and>
   renderedElementRef (initialState\<lparr>renderedElementRef := None\<rparr>) = None \<and>
   getElementPosition (initialState\<lparr>renderedElementRef := None\<rparr>)
     = Inr (initialState\<lparr>renderedElementRef := None\<rparr>)"
  using unavailable_handle_noop [of initialState]
    unavailable_handle_noop [of "initialState\<lparr>renderedElementRef := None\<rparr>"]
  by (simp add: initialState_def)

text \<open>
  Claim C2. Every run of \<^verbatim>\<open>toggleTooltip\<close> returns normally, and what it adds to the
  trace is the measurement request (when the anchor is mounted), then \<^verbatim>\<open>onClose\<close> exactly
  when \<^verbatim>\<open>isVisible\<close> holds and the platform is not iOS, then the update of \<^verbatim>\<open>isVisible\<close>
  to its negation. So \<^verbatim>\<open>onClose\<close> comes before the flag is cleared, and the toggle from
  hidden to visible never calls it.
\<close>

theorem toggle_onClose:
  "\<exists>s'. toggleTooltip e s = Inr s' \<and>
     trace s' = trace s
       @ (case ref_current (renderedElementRef s) of None \<Rightarrow> [] | Some h \<Rightarrow> [MeasureInWindow h])
       @ (if isVisible s \<and> \<not> isIOS e then [OnClose] else [])
       @ [SetIsVisible (\<not> isVisible s)]"
  by (simp add: toggleTooltip_eq)

theorem toggle_onClose_witness:
  "(\<exists>s'. toggleTooltip (sampleEnv False False) (mountedState\<lparr>isVisible := True\<rparr>) = Inr s' \<and>
      trace s' = [SetTimeout 500, MeasureInWindow 7, OnClose, SetIsVisible False]) \<and>
   (\<exists>s'. toggleTooltip (sampleEnv True False) (mountedState\<lparr>isVisible := True\<rparr>) = Inr s' \<and>
      trace s' = [SetTimeout 500, MeasureInWindow 7, SetIsVisible False]) \<and>
   (\<exists>s'. toggleTooltip (sampleEnv False False) mountedState = Inr s' \<and>
      trace s' = [SetTimeout 500, MeasureInWindow 7, SetIsVisible True])"
  using toggle_onClose [of "sampleEnv False False" "mountedState\<lparr>isVisible := True\<rparr>"]
    toggle_onClose [of "sampleEnv True False" "mountedState\<lparr>isVisible := True\<rparr>"]
    toggle_onClose [of "sampleEnv False False" mountedState]
  by (simp add: fixture_defs)

text \<open>
  Claim C7. Every run of \<^verbatim>\<open>toggleTooltip\<close>, whatever \<^verbatim>\<open>isVisible\<close> and the platform are,
  starts with the measurement operation \<^verbatim>\<open>getElementPosition\<close> and keeps its outcome:
  the outstanding requests after the toggle are those after the measurement operation,
  whose trace is a prefix of the toggle's. With the anchor mounted on the view \<open>h\<close>, this
  is one new \<^verbatim>\<open>measureInWindow\<close> request on \<open>h\<close>, the first thing the toggle does.
\<close>

theorem toggle_remeasures:
  "\<exists>s1 s'. getElementPosition s = Inr s1 \<and> toggleTooltip e s = Inr s' \<and>
     measuring s' = measuring s1 \<and>
     take (length (trace s1)) (trace s') = trace s1 \<and>
     (ref_current (renderedElementRef s) = Some h \<longrightarrow>
        measuring s' = measuring s @ [h] \<and>
        take (Suc (length (trace s))) (trace s') = trace s @ [MeasureInWindow h])"
  by (simp add: toggleTooltip_eq getElementPosition_cases emit_def split: option.splits)

theorem toggle_remeasures_witness:
  "ref_current (renderedElementRef mountedState) = Some 7 \<and>
   (\<exists>s'. toggleTooltip (sampleEnv False False) mountedState = Inr s' \<and>
      measuring s' = [7] \<and> take 2 (trace s') = [SetTimeout 500, MeasureInWindow 7]) \<and>
   (\<exists>s'. toggleTooltip (sampleEnv False False) (mountedState\<lparr>isVisible := True\<rparr>) = Inr s' \<and>
      measuring s' = [7] \<and> take 2 (trace s') = [SetTimeout 500, MeasureInWindow 7])"
  using toggle_remeasures [of mountedState "sampleEnv False False" 7]
    toggle_remeasures [of "mountedState\<lparr>isVisible := True\<rparr>" "sampleEnv False False" 7]
  by (auto simp add: fixture_defs numeral_2_eq_2)

text \<open>
  Claim C10. \<^verbatim>\<open>isVisible\<close> starts false; one run of \<^verbatim>\<open>toggleTooltip\<close> negates it and a
  second run gives the original value back.
\<close>

theorem toggle_involution:
  "\<not> isVisible initialState \<and>
   (\<exists>s' s''. toggleTooltip e s = Inr s' \<and> isVisible s' = (\<not> isVisible s) \<and>
      toggleTooltip e s' = Inr s'' \<and> isVisible s'' = isVisible s)"
proof -
  obtain s' where 1: "toggleTooltip e s = Inr s'" and 2: "isVisible s' = (\<not> isVisible s)"
    by (simp add: toggleTooltip_eq)
  obtain s'' where 3: "toggleTooltip e s' = Inr s''" and 4: "isVisible s'' = (\<not> isVisible s')"
    by (simp add: toggleTooltip_eq)
  have "\<not> isVisible initialState"
    by (simp add: initialState_def)
  with 1 2 3 4 show ?thesis by auto
qed

theorem toggle_involution_witness:
  "\<exists>s' s''. toggleTooltip (sampleEnv True False) mountedState = Inr s' \<and> isVisible s' \<and>
      toggleTooltip (sampleEnv True False) s' = Inr s'' \<and> \<not> isVisible s''"
  using toggle_involution [of "sampleEnv True False" mountedState]
  by (simp add: fixture_defs)

subsection \<open>Runs of events\<close>

lemma run_append:
  "run e p (xs @ ys) s =
     (case run e p xs s of Inl err \<Rightarrow> Inl err | Inr s1 \<Rightarrow> run e p ys s1)"
  by (induction xs arbitrary: s) (auto split: sum.splits)

lemma run_Cons_Inr:
  "run e p (ev # evs) s = Inr s' \<Longrightarrow> \<exists>s1. step e p ev s = Inr s1 \<and> run e p evs s1 = Inr s'"
  by (auto split: sum.splits)

lemma callbacks_append [simp]: "callbacks (xs @ ys) = callbacks xs @ callbacks ys"
  by (simp add: callbacks_def)

lemma callbacks_simps [simp]:
  "callbacks [] = []"
  "callbacks (OnOpen # tr) = OnOpen # callbacks tr"
  "callbacks (OnClose # tr) = OnClose # callbacks tr"
  "callbacks (MeasureInWindow h # tr) = callbacks tr"
  "callbacks (SetIsVisible b # tr) = callbacks tr"
  "callbacks (SetRenderedElementLayout l # tr) = callbacks tr"
  "callbacks (SetTimeout n # tr) = callbacks tr"
  "callbacks (ClearTimeout # tr) = callbacks tr"
  "callbacks (TimeoutElapsed # tr) = callbacks tr"
  "callbacks (WrapperHandler n # tr) = callbacks tr"
  by (simp_all add: callbacks_def)

lemma toggleTooltip_facts:
  "toggleTooltip e s = Inr s' \<Longrightarrow>
     isVisible s' = (\<not> isVisible s) \<and> presented s' = presented s \<and> phase s' = phase s \<and>
     callbacks (trace s') =
       callbacks (trace s) @ (if isVisible s \<and> \<not> isIOS e then [OnClose] else [])"
  by (auto simp add: toggleTooltip_eq split: option.splits)

lemma neutral_step:
  "neutral ev \<Longrightarrow> step e p ev s = Inr s' \<Longrightarrow>
     isVisible s' = isVisible s \<and> presented s' = presented s \<and> phase s' = phase s \<and>
     callbacks (trace s') = callbacks (trace s)"
  by (cases ev) (auto simp add: controller_defs split: option.splits if_splits list.splits handler.splits)

lemma neutral_run:
  "list_all neutral evs \<Longrightarrow> run e p evs s = Inr s' \<Longrightarrow>
     isVisible s' = isVisible s \<and> presented s' = presented s \<and> phase s' = phase s \<and>
     callbacks (trace s') = callbacks (trace s)"
proof (induction evs arbitrary: s)
  case Nil
  then show ?case by simp
next
  case (Cons ev evs)
  from Cons.prems obtain s1 where 1: "step e p ev s = Inr s1" and 2: "run e p evs s1 = Inr s'"
    by (auto split: sum.splits)
  from Cons.prems have "neutral ev" "list_all neutral evs" by simp_all
  with neutral_step [OF _ 1] Cons.IH [OF _ 2] show ?case by simp
qed

lemma run_neutral_Cons:
  assumes "run e p (ns @ ev # evs) s = Inr s'" "list_all neutral ns"
  shows "\<exists>s1 s2. isVisible s1 = isVisible s \<and> presented s1 = presented s \<and>
     phase s1 = phase s \<and> callbacks (trace s1) = callbacks (trace s) \<and>
     step e p ev s1 = Inr s2 \<and> run e p evs s2 = Inr s'"
proof -
  from assms(1) obtain s1 where 1: "run e p ns s = Inr s1" and 2: "run e p (ev # evs) s1 = Inr s'"
    by (auto simp add: run_append split: sum.splits)
  from run_Cons_Inr [OF 2] obtain s2 where 3: "step e p ev s1 = Inr s2" "run e p evs s2 = Inr s'"
    by blast
  from neutral_run [OF assms(2) 1] 3 show ?thesis by blast
qed

subsection \<open>The visibility cycle\<close>

lemma plain_cycle:
  assumes "phase s = Mounted" "\<not> isVisible s" "\<not> presented s"
    "anchorHandler p g = Some ToggleTooltip"
  shows "\<exists>s'. run e p [AnchorGesture g, ModalShow, OverlayPress, ModalDismiss] s = Inr s'"
  using assms by (simp add: controller_defs)

lemma interleaved_cycle:
  assumes s: "phase s = Mounted" "\<not> isVisible s" "\<not> presented s"
    and g: "anchorHandler p g = Some ToggleTooltip"
    and n: "list_all neutral n0" "list_all neutral n1" "list_all neutral n2"
      "list_all neutral n3" "list_all neutral n4"
    and r: "run e p (n0 @ AnchorGesture g # n1 @ ModalShow # n2 @ OverlayPress # n3
              @ ModalDismiss # n4) s = Inr s'"
  shows "\<not> isVisible s' \<and> \<not> presented s' \<and>
     callbacks (trace s') = callbacks (trace s) @ [OnOpen, OnClose]"
proof -
  from run_neutral_Cons [OF r n(1)] obtain a1 a2 where
    a1: "isVisible a1 = isVisible s" "presented a1 = presented s" "phase a1 = phase s"
      "callbacks (trace a1) = callbacks (trace s)"
    and a: "step e p (AnchorGesture g) a1 = Inr a2"
    and ra: "run e p (n1 @ ModalShow # n2 @ OverlayPress # n3 @ ModalDismiss # n4) a2 = Inr s'"
    by blast
  from a a1 s g have "toggleTooltip e a1 = Inr a2"
    by simp
  from toggleTooltip_facts [OF this] a1 s have a2:
    "isVisible a2" "\<not> presented a2" "phase a2 = Mounted"
    "callbacks (trace a2) = callbacks (trace s)"
    by simp_all
  from run_neutral_Cons [OF ra n(2)] obtain b1 b2 where
    b1: "isVisible b1 = isVisible a2" "presented b1 = presented a2" "phase b1 = phase a2"
      "callbacks (trace b1) = callbacks (trace a2)"
    and b: "step e p ModalShow b1 = Inr b2"
    and rb: "run e p (n2 @ OverlayPress # n3 @ ModalDismiss # n4) b2 = Inr s'"
    by blast
  from b b1 a2 have b2:
    "isVisible b2" "presented b2" "phase b2 = Mounted"
    "callbacks (trace b2) = callbacks (trace s) @ [OnOpen]"
    by (auto simp add: onShow_def onOpen_def emit_def)
  from run_neutral_Cons [OF rb n(3)] obtain c1 c2 where
    c1: "isVisible c1 = isVisible b2" "presented c1 = presented b2" "phase c1 = phase b2"
      "callbacks (trace c1) = callbacks (trace b2)"
    and c: "step e p OverlayPress c1 = Inr c2"
    and rc: "run e p (n3 @ ModalDismiss # n4) c2 = Inr s'"
    by blast
  from c c1 b2 have "toggleTooltip e c1 = Inr c2"
    by simp
  from toggleTooltip_facts [OF this] c1 b2 have c2:
    "\<not> isVisible c2" "presented c2" "phase c2 = Mounted"
    "callbacks (trace c2) =
       callbacks (trace s) @ [OnOpen] @ (if isIOS e then [] else [OnClose])"
    by simp_all
  from run_neutral_Cons [OF rc n(4)] obtain d1 d2 where
    d1: "isVisible d1 = isVisible c2" "presented d1 = presented c2" "phase d1 = phase c2"
      "callbacks (trace d1) = callbacks (trace c2)"
    and d: "step e p ModalDismiss d1 = Inr d2"
    and rd: "run e p n4 d2 = Inr s'"
    by blast
  from d d1 c2 have d2:
    "\<not> isVisible d2" "\<not> presented d2"
    "callbacks (trace d2) = callbacks (trace s) @ [OnOpen, OnClose]"
    by (auto simp add: onDismiss_def onClose_def emit_def split: if_splits)
  from neutral_run [OF n(5) rd] d2 show ?thesis
    by simp
qed

text \<open>
  The cycle through \<^verbatim>\<open>toggleTooltip\<close>. Take a mounted instance whose overlay is hidden,
  and a cycle made of a gesture on the anchor whose handler is the toggle, the modal's
  report that it is shown, a press on the overlay and the modal's dismissal, with nothing
  but passing time and answers to measurements in between. The host can always deliver
  that cycle; it ends with the overlay hidden again, and on both platforms it calls
  \<^verbatim>\<open>onOpen\<close> exactly once and then \<^verbatim>\<open>onClose\<close> exactly once: the test
  \<^verbatim>\<open>isVisible && !isIOS\<close> keeps the toggle from doubling the call of \<^verbatim>\<open>onDismiss\<close>.
\<close>

lemma toggle_cycle:
  assumes "phase s = Mounted" "\<not> isVisible s" "\<not> presented s"
    "anchorHandler p g = Some ToggleTooltip"
  shows "(\<exists>s'. run e p [AnchorGesture g, ModalShow, OverlayPress, ModalDismiss] s = Inr s') \<and>
     (\<forall>n0 n1 n2 n3 n4 s'.
        list_all neutral (n0 @ n1 @ n2 @ n3 @ n4) \<and>
        run e p (n0 @ AnchorGesture g # n1 @ ModalShow # n2 @ OverlayPress # n3
                   @ ModalDismiss # n4) s = Inr s' \<longrightarrow>
        \<not> isVisible s' \<and> \<not> presented s' \<and>
        callbacks (trace s') = callbacks (trace s) @ [OnOpen, OnClose])"
  using plain_cycle [OF assms] interleaved_cycle [OF assms] by auto

lemma toggle_cycle_example:
  "phase mountedState = Mounted \<and> \<not> isVisible mountedState \<and> \<not> presented mountedState \<and>
   anchorHandler defaultProps Tap = Some ToggleTooltip \<and>
   list_all neutral ([] @ [Advance 100] @ [Measured 20 700 100 40] @ [] @ [Advance 400]) \<and>
   (\<exists>s'. run (sampleEnv False False) defaultProps
            ([] @ AnchorGesture Tap # [Advance 100] @ ModalShow # [Measured 20 700 100 40]
               @ OverlayPress # [] @ ModalDismiss # [Advance 400]) mountedState = Inr s' \<and>
          \<not> isVisible s' \<and> \<not> presented s' \<and> callbacks (trace s') = [OnOpen, OnClose]) \<and>
   (\<exists>s'. run (sampleEnv True False) defaultProps
            ([] @ AnchorGesture Tap # [Advance 100] @ ModalShow # [Measured 20 700 100 40]
               @ OverlayPress # [] @ ModalDismiss # [Advance 400]) mountedState = Inr s' \<and>
          \<not> isVisible s' \<and> \<not> presented s' \<and> callbacks (trace s') = [OnOpen, OnClose])"
proof -
  let ?evs = "[] @ AnchorGesture Tap # [Advance 100] @ ModalShow # [Measured 20 700 100 40]
               @ OverlayPress # [] @ ModalDismiss # [Advance 400]"
  have h: "phase mountedState = Mounted" "\<not> isVisible mountedState"
    "\<not> presented mountedState" "anchorHandler defaultProps Tap = Some ToggleTooltip"
    by (simp_all add: fixture_defs anchorHandler_def)
  have n: "list_all neutral ([] @ [Advance 100] @ [Measured 20 700 100 40] @ [] @ [Advance 400])"
    by simp
  have c: "callbacks (trace mountedState) = []"
    by (simp add: fixture_defs)
  obtain a where a: "run (sampleEnv False False) defaultProps ?evs mountedState = Inr a"
    by (simp add: controller_defs fixture_defs anchorHandler_def)
  obtain i where i: "run (sampleEnv True False) defaultProps ?evs mountedState = Inr i"
    by (simp add: controller_defs fixture_defs anchorHandler_def)
  from toggle_cycle [OF h, of "sampleEnv False False"] n a c
  have 1: "\<not> isVisible a \<and> \<not> presented a \<and> callbacks (trace a) = [OnOpen, OnClose]"
    by (metis append_Nil)
  from toggle_cycle [OF h, of "sampleEnv True False"] n i c
  have 2: "\<not> isVisible i \<and> \<not> presented i \<and> callbacks (trace i) = [OnOpen, OnClose]"
    by (metis append_Nil)
  from h n a i 1 2 show ?thesis by blast
qed

text \<open>
  A handler that the caller puts into \<^verbatim>\<open>toggleWrapperProps\<close> replaces the toggle on the
  anchor, and a disabled wrapper has none.
\<close>

lemma toggleWrapperProps_replace_handler:
  "anchorHandler (defaultProps\<lparr>toggleWrapperProps := [''onPress'' \<mapsto> PHandler (CallerHandler 1)]\<rparr>)
     Tap = Some (CallerHandler 1) \<and>
   anchorHandler (defaultProps\<lparr>toggleWrapperProps := [''disabled'' \<mapsto> PBool True]\<rparr>) Tap = None \<and>
   anchorHandler defaultProps LongTap = None"
  by (simp add: anchorHandler_def defaultProps_def)

text \<open>
  Claim C1 says that every full visibility cycle, closed by a tap or by a request to
  close, calls \<^verbatim>\<open>onOpen\<close> exactly once and \<^verbatim>\<open>onClose\<close> exactly once. The code does so on
  the cycle through the toggle, and breaks it when the host delivers a request to close:
  \<^verbatim>\<open>onRequestClose\<close> calls \<^verbatim>\<open>onClose\<close> and leaves the overlay visible, and the press on
  the overlay that then hides it brings a second \<^verbatim>\<open>onClose\<close>, from the toggle off iOS
  and from \<^verbatim>\<open>onDismiss\<close> on iOS. The instance is mounted on the view 7 with the default
  props, tapped, shown, asked to close, pressed on the overlay and dismissed.
\<close>

theorem request_close_double_onClose:
  "map_sum id (\<lambda>s. (isVisible s, callbacks (trace s)))
     (run (sampleEnv False False) defaultProps
        [Mount 7, AnchorGesture Tap, ModalShow, ModalRequestClose] initialState)
     = Inr (True, [OnOpen, OnClose]) \<and>
   map_sum id (\<lambda>s. (isVisible s, callbacks (trace s)))
     (run (sampleEnv False False) defaultProps
        [Mount 7, AnchorGesture Tap, ModalShow, ModalRequestClose, OverlayPress, ModalDismiss]
        initialState)
     = Inr (False, [OnOpen, OnClose, OnClose]) \<and>
   map_sum id (\<lambda>s. (isVisible s, callbacks (trace s)))
     (run (sampleEnv True False) defaultProps
        [Mount 7, AnchorGesture Tap, ModalShow, ModalRequestClose, OverlayPress, ModalDismiss]
        initialState)
     = Inr (False, [OnOpen, OnClose, OnClose])"
  by (simp add: controller_defs fixture_defs anchorHandler_def)

subsection \<open>The timer of the mount effect\<close>

lemma step_trace_grows:
  "step e p ev s = Inr s' \<Longrightarrow> set (trace s) \<subseteq> set (trace s')"
  by (cases ev) (auto simp add: controller_defs split: option.splits if_splits list.splits handler.splits)

lemma run_trace_grows:
  "run e p evs s = Inr s' \<Longrightarrow> set (trace s) \<subseteq> set (trace s')"
proof (induction evs arbitrary: s)
  case Nil
  then show ?case by simp
next
  case (Cons ev evs)
  from run_Cons_Inr [OF Cons.prems] obtain s1 where
    "step e p ev s = Inr s1" "run e p evs s1 = Inr s'" by blast
  with step_trace_grows Cons.IH show ?case by blast
qed

text \<open>While the timer is scheduled and not yet due, no event runs its callback.\<close>

lemma step_pending:
  assumes "step e p ev s = Inr s'" "phase s = Mounted" "timeout s = Some due"
    "clock s + elapsed [ev] < due"
  shows "(phase s' = Mounted \<and> timeout s' = Some due \<or> phase s' = Disposed \<and> timeout s' = None) \<and>
     clock s' = clock s + elapsed [ev] \<and>
     count_list (trace s') TimeoutElapsed = count_list (trace s) TimeoutElapsed"
  using assms
  by (cases ev) (auto simp add: controller_defs split: option.splits if_splits list.splits handler.splits)

text \<open>Once the instance is disposed of and no timer is scheduled, none ever runs.\<close>

lemma step_disposed:
  assumes "step e p ev s = Inr s'" "phase s = Disposed" "timeout s = None"
  shows "phase s' = Disposed \<and> timeout s' = None \<and>
     count_list (trace s') TimeoutElapsed = count_list (trace s) TimeoutElapsed"
  using assms
  by (cases ev) (auto simp add: controller_defs split: option.splits if_splits list.splits handler.splits)

lemma run_disposed:
  "run e p evs s = Inr s' \<Longrightarrow> phase s = Disposed \<Longrightarrow> timeout s = None \<Longrightarrow>
     phase s' = Disposed \<and> timeout s' = None \<and>
     count_list (trace s') TimeoutElapsed = count_list (trace s) TimeoutElapsed"
proof (induction evs arbitrary: s)
  case Nil
  then show ?case by simp
next
  case (Cons ev evs)
  from run_Cons_Inr [OF Cons.prems(1)] obtain s1 where
    1: "step e p ev s = Inr s1" and 2: "run e p evs s1 = Inr s'" by blast
  from step_disposed [OF 1 Cons.prems(2,3)] Cons.IH [OF 2] show ?case by simp
qed

lemma elapsed_Cons: "elapsed (ev # evs) = elapsed [ev] + elapsed evs"
  by (cases ev) simp_all

lemma run_pending:
  "run e p evs s = Inr s' \<Longrightarrow> phase s = Mounted \<Longrightarrow> timeout s = Some due \<Longrightarrow>
     clock s + elapsed evs < due \<Longrightarrow>
     (phase s' = Mounted \<and> timeout s' = Some due \<or> phase s' = Disposed \<and> timeout s' = None) \<and>
     count_list (trace s') TimeoutElapsed = count_list (trace s) TimeoutElapsed"
proof (induction evs arbitrary: s)
  case Nil
  then show ?case by simp
next
  case (Cons ev evs)
  from run_Cons_Inr [OF Cons.prems(1)] obtain s1 where
    1: "step e p ev s = Inr s1" and 2: "run e p evs s1 = Inr s'" by blast
  from Cons.prems(4) have t: "clock s + elapsed [ev] + elapsed evs < due"
    by (simp add: elapsed_Cons [of ev evs])
  then have "clock s + elapsed [ev] < due" by simp
  from step_pending [OF 1 Cons.prems(2,3) this]
  have s1: "phase s1 = Mounted \<and> timeout s1 = Some due \<or> phase s1 = Disposed \<and> timeout s1 = None"
    and c: "clock s1 = clock s + elapsed [ev]"
    and n: "count_list (trace s1) TimeoutElapsed = count_list (trace s) TimeoutElapsed"
    by simp_all
  from s1 show ?case
  proof
    assume m: "phase s1 = Mounted \<and> timeout s1 = Some due"
    from t c have "clock s1 + elapsed evs < due" by simp
    with Cons.IH [OF 2] m n show ?thesis by simp
  next
    assume d: "phase s1 = Disposed \<and> timeout s1 = None"
    with run_disposed [OF 2] n show ?thesis by simp
  qed
qed

lemma mount_schedules:
  assumes "phase s = Unmounted"
  shows "step e p (Mount h) s =
     Inr (s\<lparr>phase := Mounted, renderedElementRef := Some (RefObject (Some h)),
            timeout := Some (clock s + 500), trace := trace s @ [SetTimeout 500]\<rparr>)"
  using assms by (simp add: controller_defs)

lemma cancelled_before_elapse:
  assumes 1: "step e p (Mount h) s = Inr s1"
    and u: "phase s = Unmounted"
    and t: "elapsed evs1 < 500"
    and r: "run e p (evs1 @ Unmount # evs2) s1 = Inr s3"
  shows "count_list (trace s3) TimeoutElapsed = count_list (trace s) TimeoutElapsed \<and>
     ClearTimeout \<in> set (trace s3) \<and> timeout s3 = None"
proof -
  from 1 mount_schedules [OF u, of e p h] have s1:
    "phase s1 = Mounted" "timeout s1 = Some (clock s + 500)" "clock s1 = clock s"
    "count_list (trace s1) TimeoutElapsed = count_list (trace s) TimeoutElapsed"
    by auto
  from r obtain a where a: "run e p evs1 s1 = Inr a" and ra: "run e p (Unmount # evs2) a = Inr s3"
    by (auto simp add: run_append split: sum.splits)
  from run_Cons_Inr [OF ra] obtain b where b: "step e p Unmount a = Inr b"
    and rb: "run e p evs2 b = Inr s3" by blast
  from t s1 have "clock s1 + elapsed evs1 < clock s + 500" by simp
  from run_pending [OF a s1(1,2) this] s1(4)
  have n: "count_list (trace a) TimeoutElapsed = count_list (trace s) TimeoutElapsed"
    by simp
  from b have pa: "phase a = Mounted"
    by (simp split: if_splits)
  with b n have bb: "phase b = Disposed" "timeout b = None" "ClearTimeout \<in> set (trace b)"
    "count_list (trace b) TimeoutElapsed = count_list (trace s) TimeoutElapsed"
    by (auto simp add: controller_defs)
  from run_disposed [OF rb bb(1,2)] run_trace_grows [OF rb] bb show ?thesis
    by auto
qed

lemma timer_not_due:
  assumes "phase s = Unmounted" "step e p (Mount h) s = Inr s1" "d < 500"
  shows "step e p (Advance d) s1 = Inr (s1\<lparr>clock := clock s1 + d\<rparr>)"
  using assms by (auto simp add: controller_defs)

lemma timer_due:
  assumes "phase s = Unmounted" "step e p (Mount h) s = Inr s1" "500 \<le> d"
  shows "\<exists>s2. step e p (Advance d) s1 = Inr s2 \<and>
     trace s2 = trace s1 @ [TimeoutElapsed, MeasureInWindow h] \<and> timeout s2 = None"
  using assms by (auto simp add: controller_defs)

text \<open>
  Claim C8. Mounting schedules exactly one timer, with a delay of 500 ms. The timer
  does not run before 500 ms have passed; when they have, it runs the measurement
  operation, once. If the instance is unmounted after less than 500 ms, the cleanup
  clears the timer, and in no continuation does the timer's callback run: the
  measurement scheduled on mount never takes place after disposal, so it updates no state.
\<close>

theorem mount_measurement:
  assumes "phase s = Unmounted"
  shows "\<exists>s1. step e p (Mount h) s = Inr s1 \<and>
     trace s1 = trace s @ [SetTimeout 500] \<and> timeout s1 = Some (clock s + 500) \<and>
     (\<forall>d. d < 500 \<longrightarrow> step e p (Advance d) s1 = Inr (s1\<lparr>clock := clock s1 + d\<rparr>)) \<and>
     (\<forall>d. 500 \<le> d \<longrightarrow>
        (\<exists>s2. step e p (Advance d) s1 = Inr s2 \<and>
           trace s2 = trace s1 @ [TimeoutElapsed, MeasureInWindow h] \<and> timeout s2 = None)) \<and>
     (\<forall>evs1 evs2 s3.
        elapsed evs1 < 500 \<and> run e p (evs1 @ Unmount # evs2) s1 = Inr s3 \<longrightarrow>
        count_list (trace s3) TimeoutElapsed = count_list (trace s) TimeoutElapsed \<and>
        ClearTimeout \<in> set (trace s3) \<and> timeout s3 = None)"
proof -
  obtain s1 where 1: "step e p (Mount h) s = Inr s1"
    and 2: "trace s1 = trace s @ [SetTimeout 500]" "timeout s1 = Some (clock s + 500)"
    using mount_schedules [OF assms, of e p h] by simp
  from timer_not_due [OF assms 1] timer_due [OF assms 1] cancelled_before_elapse [OF 1 assms]
    1 2 show ?thesis
    by blast
qed

theorem mount_measurement_witness:
  "phase initialState = Unmounted \<and>
   step (sampleEnv False False) defaultProps (Mount 7) initialState = Inr mountedState \<and>
   elapsed [Advance 200, AnchorGesture Tap, Advance 299] < 500 \<and>
   map_sum id (\<lambda>s. (count_list (trace s) TimeoutElapsed, timeout s, renderedElementLayout s))
     (run (sampleEnv False False) defaultProps
        ([Advance 200, AnchorGesture Tap, Advance 299] @ Unmount # [Advance 1000])
        mountedState)
     = Inr (0, None, initialLayout) \<and>
   map_sum id trace (step (sampleEnv False False) defaultProps (Advance 500) mountedState)
     = Inr [SetTimeout 500, TimeoutElapsed, MeasureInWindow 7]"
proof -
  let ?e = "sampleEnv False False"
  let ?evs1 = "[Advance 200, AnchorGesture Tap, Advance 299]"
  have u: "phase initialState = Unmounted"
    by (simp add: initialState_def)
  have t: "elapsed ?evs1 < 500"
    by simp
  have c: "count_list (trace initialState) TimeoutElapsed = 0"
    by (simp add: initialState_def)
  obtain s3 where r: "run ?e defaultProps (?evs1 @ Unmount # [Advance 1000]) mountedState = Inr s3"
    and l: "renderedElementLayout s3 = initialLayout"
    by (simp add: controller_defs fixture_defs anchorHandler_def)
  from mount_measurement [OF u, of ?e defaultProps 7] obtain s1 where
    m: "step ?e defaultProps (Mount 7) initialState = Inr s1"
    and a: "\<forall>d. 500 \<le> d \<longrightarrow>
        (\<exists>s2. step ?e defaultProps (Advance d) s1 = Inr s2 \<and>
           trace s2 = trace s1 @ [TimeoutElapsed, MeasureInWindow 7] \<and> timeout s2 = None)"
    and b: "\<forall>evs1 evs2 s3.
        elapsed evs1 < 500 \<and> run ?e defaultProps (evs1 @ Unmount # evs2) s1 = Inr s3 \<longrightarrow>
        count_list (trace s3) TimeoutElapsed = count_list (trace initialState) TimeoutElapsed \<and>
        ClearTimeout \<in> set (trace s3) \<and> timeout s3 = None"
    by blast
  from m have s1: "s1 = mountedState"
    by (simp only: mount_initialState sum.inject)
  from b t r c have 1: "count_list (trace s3) TimeoutElapsed = 0 \<and> timeout s3 = None"
    unfolding s1 by metis
  from a obtain s2 where "step ?e defaultProps (Advance 500) mountedState = Inr s2"
    "trace s2 = trace mountedState @ [TimeoutElapsed, MeasureInWindow 7]"
    unfolding s1 by blast
  then have 2: "map_sum id trace (step ?e defaultProps (Advance 500) mountedState)
     = Inr [SetTimeout 500, TimeoutElapsed, MeasureInWindow 7]"
    by (simp add: mountedState_def)
  from u t r l 1 2 mount_initialState [of ?e defaultProps] show ?thesis
    by simp
qed

end
